theory Spec2Isabelle
  imports Main "HOL-Library.Word"
begin

section \<open>Data model of the session orchestrator (src/src/main.ts)\<close>

text \<open>
  The orchestrator is one closure over a dozen mutable variables. The variables become the
  fields of a record that every handler takes and returns. The browser and SDK objects the
  variables point to (sockets, audio elements, recorders) live in stores indexed by the
  order of their creation; a variable holding such an object holds its index.
\<close>

type_synonym blob = "8 word list"

text \<open>An \<open>HTMLAudioElement\<close> created by \<open>new Audio(url)\<close>: the chunk it renders and
  whether it is rendering, was paused, or has run to its end.\<close>

datatype media_phase = Playing | Paused | Ended

datatype audio = Audio (src: blob) (phase: media_phase)

text \<open>The state of a chat socket as the page meets it. A socket is created \<open>CONNECTING\<close>
  and becomes \<open>OPEN\<close>. \<open>CLOSED\<close>: the connection has ended without a request of the page;
  the page's listeners are still attached. \<open>CLOSING\<close>: the page has called \<open>close\<close>; the SDK
  shuts the connection down and has removed the page's listeners, so no event of this socket
  reaches the page any more.\<close>

datatype ready_state = CONNECTING | OPEN | CLOSING | CLOSED

datatype recorder_state = Recording | Inactive

text \<open>What reaches \<open>handleError\<close>: the exception of a rejected connect, the
  \<open>Error('WebSocket disconnected')\<close> of the close handler, and the missing argument of the
  call in the error handler.\<close>

datatype error = ConnectFailed | WebSocketDisconnected | UndefinedError

text \<open>The toggle button: its label and whether its class list holds \<open>active\<close>.\<close>

record button =
  textContent :: string
  active :: bool

text \<open>An inbound \<open>SubscribeEvent\<close>: the tag the dispatch switches on, and the two payload
  fields the handler reads.\<close>

record message =
  msg_type :: string
  msg_chatGroupId :: string
  msg_data :: string

record state =
  toggleBtn :: "button option"
  isConnected :: bool
  client :: bool
  socket :: "nat option"
  connected :: bool
  recorder :: "nat option"
  audioStream :: "nat option"
  currentAudio :: "nat option"
  isPlaying :: bool
  resumeChats :: bool
  chatGroupId :: "string option"
  audioQueue :: "blob list"
  sockets :: "ready_state list"
  audios :: "audio list"
  recorders :: "recorder_state list"
  streams :: nat
  connects :: "string option list"
  errors :: "error list"
  sent :: "(nat \<times> string) list"

text \<open>
  \<open>sockets\<close>, \<open>audios\<close>, \<open>recorders\<close> and \<open>streams\<close> are the stores; \<open>connects\<close> records the
  \<open>resumedChatGroupId\<close> argument of every call of the SDK's connect, \<open>errors\<close> every call of
  \<open>handleError\<close>, \<open>sent\<close> every call of \<open>sendAudioInput\<close> with the socket it went to.
\<close>

section \<open>Playback queue\<close>

text \<open>\<open>Array.prototype.shift\<close>: the first element and the rest, \<open>undefined\<close> on an empty
  array.\<close>

definition array_shift :: "'a list \<Rightarrow> 'a option \<times> 'a list" where
  "array_shift xs = (case xs of [] \<Rightarrow> (None, []) | x # rest \<Rightarrow> (Some x, rest))"

text \<open>\<open>playAudio\<close>, up to the registration of the \<open>onended\<close> callback. A \<open>Blob\<close> is an
  object, so \<open>!audioBlob\<close> holds exactly when \<open>shift\<close> returned \<open>undefined\<close>.\<close>

definition playAudio :: "state \<Rightarrow> state" where
  "playAudio s =
     (if length (audioQueue s) = 0 \<or> isPlaying s then s
      else
        let s1 = s\<lparr>isPlaying := True\<rparr>;
            (audioBlob, rest) = array_shift (audioQueue s1);
            s2 = s1\<lparr>audioQueue := rest\<rparr>
        in case audioBlob of
             None \<Rightarrow> s2
           | Some b \<Rightarrow>
               s2\<lparr>audios := audios s2 @ [Audio b Playing],
                  currentAudio := Some (length (audios s2))\<rparr>)"

text \<open>The body of the \<open>onended\<close> callback. It reads only the shared variables, so it is the
  same function for every audio element.\<close>

definition onended :: "state \<Rightarrow> state" where
  "onended s =
     (let s1 = s\<lparr>isPlaying := False\<rparr>
      in if length (audioQueue s1) \<noteq> 0 then playAudio s1 else s1)"

text \<open>\<open>HTMLMediaElement.pause\<close>: an element that is rendering stops; any other is left as
  it is.\<close>

definition pause :: "nat \<Rightarrow> audio list \<Rightarrow> audio list" where
  "pause i as =
     (if i < length as \<and> phase (as ! i) = Playing
      then as[i := Audio (src (as ! i)) Paused] else as)"

definition stopAudio :: "state \<Rightarrow> state" where
  "stopAudio s =
     (let s1 = (case currentAudio s of None \<Rightarrow> s
                | Some i \<Rightarrow> s\<lparr>audios := pause i (audios s)\<rparr>)
      in s1\<lparr>currentAudio := None, isPlaying := False, audioQueue := []\<rparr>)"

section \<open>Inbound message dispatch\<close>

text \<open>\<open>handleWebSocketMessageEvent\<close>. \<open>convertBase64ToBlob\<close> belongs to the SDK and is a
  parameter (the mime type it is called with is a constant of the page).\<close>

definition handleWebSocketMessageEvent ::
    "(string \<Rightarrow> blob) \<Rightarrow> message \<Rightarrow> state \<Rightarrow> state" where
  "handleWebSocketMessageEvent convertBase64ToBlob m s =
     (if msg_type m = ''chat_metadata'' then s\<lparr>chatGroupId := Some (msg_chatGroupId m)\<rparr>
      else if msg_type m = ''audio_output'' then
        let b = convertBase64ToBlob (msg_data m);
            s1 = s\<lparr>audioQueue := audioQueue s @ [b]\<rparr>
        in if length (audioQueue s1) \<ge> 1 then playAudio s1 else s1
      else if msg_type m = ''user_interruption'' then stopAudio s
      else s)"

section \<open>Connection manager\<close>

definition handleError :: "error \<Rightarrow> state \<Rightarrow> state" where
  "handleError e s = s\<lparr>errors := errors s @ [e]\<rparr>"

definition updateToggleButtonState :: "state \<Rightarrow> state" where
  "updateToggleButtonState s =
     (case toggleBtn s of
        None \<Rightarrow> s
      | Some b \<Rightarrow>
          s\<lparr>toggleBtn := Some (b\<lparr>textContent :=
                 (if isConnected s then ''Stop Conversation'' else ''Start Conversation''),
               active := isConnected s\<rparr>)\<rparr>)"

text \<open>\<open>connect\<close>. The flag \<open>ok\<close> is the outcome of the SDK's connect: \<open>True\<close> when it
  returns a socket, \<open>False\<close> when it throws and the \<open>catch\<close> runs. The argument
  \<open>resumedChatGroupId\<close> is read when the call is made.\<close>

definition connect :: "bool \<Rightarrow> state \<Rightarrow> state" where
  "connect ok s =
     (let s1 = (if \<not> client s then s\<lparr>client := True\<rparr> else s);
          s2 = s1\<lparr>connects := connects s1 @ [chatGroupId s1]\<rparr>
      in if ok then
           let s3 = s2\<lparr>sockets := sockets s2 @ [CONNECTING],
                      socket := Some (length (sockets s2))\<rparr>;
               s4 = s3\<lparr>isConnected := True\<rparr>
           in updateToggleButtonState s4
         else handleError ConnectFailed s2)"

definition handleWebSocketErrorEvent :: "state \<Rightarrow> state" where
  "handleWebSocketErrorEvent s = handleError UndefinedError s"

text \<open>\<open>handleWebSocketCloseEvent\<close>. \<open>connect\<close> catches its own exception, so the \<open>catch\<close>
  of the handler never runs.\<close>

definition handleWebSocketCloseEvent :: "bool \<Rightarrow> state \<Rightarrow> state" where
  "handleWebSocketCloseEvent ok s =
     (if connected s then connect ok s else handleError WebSocketDisconnected s)"

text \<open>\<open>ChatSocket.close\<close> of the SDK, on the store: whatever the state of the socket, the
  connection is shut down for good and the page's listeners are removed. The same call also
  runs the close handler the page has registered, at once and on every call; that part is
  in \<open>disconnect\<close>, where the call is made. \<open>MediaRecorder.stop\<close>: a recorder that records
  becomes inactive.\<close>

definition close :: "nat \<Rightarrow> ready_state list \<Rightarrow> ready_state list" where
  "close k ss = (if k < length ss then ss[k := CLOSING] else ss)"

definition stop :: "nat \<Rightarrow> recorder_state list \<Rightarrow> recorder_state list" where
  "stop r rs = (if r < length rs \<and> rs ! r = Recording then rs[r := Inactive] else rs)"

text \<open>\<open>disconnect\<close>. \<open>socket?.close()\<close> closes the socket the page holds and, inside the
  call, runs \<open>handleWebSocketCloseEvent\<close>. \<open>connected\<close> has just been cleared, so the handler
  takes its reporting branch and the outcome of a connect, which it is given here as
  \<open>False\<close>, is never used.\<close>

definition disconnect :: "state \<Rightarrow> state" where
  "disconnect s =
     (let s1 = stopAudio s;
          s2 = (case recorder s1 of None \<Rightarrow> s1
                | Some r \<Rightarrow> s1\<lparr>recorders := stop r (recorders s1)\<rparr>);
          s3 = s2\<lparr>recorder := None, audioStream := None, connected := False\<rparr>;
          s4 = (if \<not> resumeChats s3 then s3\<lparr>chatGroupId := None\<rparr> else s3);
          s5 = (case socket s4 of None \<Rightarrow> s4
                | Some k \<Rightarrow>
                    handleWebSocketCloseEvent False
                      (s4\<lparr>sockets := close k (sockets s4)\<rparr>));
          s6 = s5\<lparr>isConnected := False\<rparr>
      in updateToggleButtonState s6)"

definition toggleConnection :: "bool \<Rightarrow> state \<Rightarrow> state" where
  "toggleConnection ok s = (if isConnected s then disconnect s else connect ok s)"

section \<open>Capture pipeline\<close>

text \<open>\<open>captureAudio\<close> stops at the first call that throws: \<open>getAudioStream\<close> may reject,
  \<open>ensureSingleValidAudioTrack\<close> may throw; otherwise a recorder is created and started.\<close>

datatype capture_outcome = StreamRejected | TrackInvalid | CaptureStarted

definition captureAudio :: "capture_outcome \<Rightarrow> state \<Rightarrow> state" where
  "captureAudio c s =
     (case c of
        StreamRejected \<Rightarrow> s
      | TrackInvalid \<Rightarrow> s\<lparr>audioStream := Some (streams s), streams := Suc (streams s)\<rparr>
      | CaptureStarted \<Rightarrow>
          s\<lparr>audioStream := Some (streams s), streams := Suc (streams s),
            recorder := Some (length (recorders s)),
            recorders := recorders s @ [Recording]\<rparr>)"

definition handleWebSocketOpenEvent :: "capture_outcome \<Rightarrow> state \<Rightarrow> state" where
  "handleWebSocketOpenEvent c s = captureAudio c (s\<lparr>connected := True\<rparr>)"

text \<open>The \<open>ondataavailable\<close> callback of the recorder. Before its \<open>await\<close> it reads only the
  chunk; the state is the one in which it resumes and reads \<open>socket\<close>.
  \<open>convertBlobToBase64\<close> belongs to the SDK and is a parameter.\<close>

definition ondataavailable :: "(blob \<Rightarrow> string) \<Rightarrow> blob \<Rightarrow> state \<Rightarrow> state" where
  "ondataavailable convertBlobToBase64 chunk s =
     (if length chunk < 1 then s
      else
        let encodedAudioData = convertBlobToBase64 chunk
        in case socket s of
             None \<Rightarrow> s
           | Some k \<Rightarrow> s\<lparr>sent := sent s @ [(k, encodedAudioData)]\<rparr>)"

section \<open>The page as loaded\<close>

text \<open>The state after the closure has run to its end: every variable at its initialiser and
  the button, when the page has one, labelled by the first \<open>updateToggleButtonState\<close>.\<close>

definition init :: "button option \<Rightarrow> state" where
  "init btn = updateToggleButtonState
     \<lparr>toggleBtn = btn, isConnected = False, client = False, socket = None,
      connected = False, recorder = None, audioStream = None, currentAudio = None,
      isPlaying = False, resumeChats = True, chatGroupId = None, audioQueue = [],
      sockets = [], audios = [], recorders = [], streams = 0,
      connects = [], errors = [], sent = []\<rparr>"

section \<open>The environment's events\<close>

text \<open>
  The handlers above run when the browser or the SDK fires an event. An event of an object
  carries the object's index; it can fire only in the phase the platform fires it in, and an
  event that cannot fire leaves the state as it is.
\<close>

text \<open>\<open>ended\<close> fires on an element that is rendering and has reached its end, then the
  \<open>onended\<close> callback runs.\<close>

definition render_ended :: "nat \<Rightarrow> state \<Rightarrow> state" where
  "render_ended i s =
     (if i < length (audios s) \<and> phase (audios s ! i) = Playing
      then onended (s\<lparr>audios := (audios s)[i := Audio (src (audios s ! i)) Ended]\<rparr>)
      else s)"

text \<open>\<open>open\<close> fires on a connecting socket. \<open>close\<close> fires on a connecting or open socket
  whose connection ends without a request of the page (a socket the page has closed has no
  listeners left). The SDK's socket is a reconnecting one: after such an end it may connect
  again by itself, with the page's listeners still attached, and fire \<open>open\<close> once more.\<close>

definition socket_opened :: "nat \<Rightarrow> capture_outcome \<Rightarrow> state \<Rightarrow> state" where
  "socket_opened k c s =
     (if k < length (sockets s) \<and> sockets s ! k = CONNECTING
      then handleWebSocketOpenEvent c (s\<lparr>sockets := (sockets s)[k := OPEN]\<rparr>)
      else s)"

definition socket_closed :: "nat \<Rightarrow> bool \<Rightarrow> state \<Rightarrow> state" where
  "socket_closed k ok s =
     (if k < length (sockets s) \<and> (sockets s ! k = CONNECTING \<or> sockets s ! k = OPEN)
      then handleWebSocketCloseEvent ok (s\<lparr>sockets := (sockets s)[k := CLOSED]\<rparr>)
      else s)"

definition socket_reopened :: "nat \<Rightarrow> state \<Rightarrow> state" where
  "socket_reopened k s =
     (if k < length (sockets s) \<and> sockets s ! k = CLOSED
      then s\<lparr>sockets := (sockets s)[k := CONNECTING]\<rparr>
      else s)"

section \<open>Observations\<close>

text \<open>The audio elements that are rendering, and the sockets that are live (connecting or
  open), by index.\<close>

definition playing_at :: "audio list \<Rightarrow> nat list" where
  "playing_at as = filter (\<lambda>i. phase (as ! i) = Playing) [0..<length as]"

definition rendering :: "state \<Rightarrow> nat list" where
  "rendering s = playing_at (audios s)"

definition live :: "state \<Rightarrow> nat list" where
  "live s = filter (\<lambda>k. sockets s ! k = CONNECTING \<or> sockets s ! k = OPEN)
              [0..<length (sockets s)]"

text \<open>The playback cursor: while \<open>isPlaying\<close> is set, the element in \<open>currentAudio\<close> is the
  one element that renders; while it is clear, nothing renders and nothing waits.\<close>

definition player_inv :: "state \<Rightarrow> bool" where
  "player_inv s =
     (if isPlaying s
      then (case currentAudio s of None \<Rightarrow> False | Some i \<Rightarrow> rendering s = [i])
      else rendering s = [] \<and> audioQueue s = [])"

text \<open>Runs of the playback queue: an \<open>audio_output\<close> message enqueues its decoded payload,
  a render completion fires \<open>ended\<close> on an element.\<close>

definition audio_output :: "string \<Rightarrow> message" where
  "audio_output d = \<lparr>msg_type = ''audio_output'', msg_chatGroupId = [], msg_data = d\<rparr>"

definition chat_metadata :: "string \<Rightarrow> message" where
  "chat_metadata g = \<lparr>msg_type = ''chat_metadata'', msg_chatGroupId = g, msg_data = []\<rparr>"

datatype playback_event = Enqueue string | RenderEnded nat

fun playback_step :: "(string \<Rightarrow> blob) \<Rightarrow> state \<Rightarrow> playback_event \<Rightarrow> state" where
  "playback_step dec s (Enqueue d) = handleWebSocketMessageEvent dec (audio_output d) s"
| "playback_step dec s (RenderEnded i) = render_ended i s"

definition playback_run :: "(string \<Rightarrow> blob) \<Rightarrow> state \<Rightarrow> playback_event list \<Rightarrow> state" where
  "playback_run dec s evs = foldl (playback_step dec) s evs"

fun enqueued :: "playback_event list \<Rightarrow> string list" where
  "enqueued [] = []"
| "enqueued (Enqueue d # evs) = d # enqueued evs"
| "enqueued (RenderEnded i # evs) = enqueued evs"

text \<open>The group identifier of the last \<open>chat_metadata\<close> message of a list of messages.\<close>

fun last_metadata :: "message list \<Rightarrow> string option" where
  "last_metadata [] = None"
| "last_metadata (m # ms) =
     (case last_metadata ms of
        Some g \<Rightarrow> Some g
      | None \<Rightarrow> if msg_type m = ''chat_metadata'' then Some (msg_chatGroupId m) else None)"

section \<open>Runs of the whole page\<close>

text \<open>
  Every way the page is entered after loading: a click on the toggle button (which exists),
  the four socket events, the end of an audio element, a chunk from a recorder. A message
  arrives on an open socket; an error comes from a socket whose listeners are attached; a
  chunk needs its recorder to exist. \<open>SocketReopen\<close> is the SDK connecting a socket again by
  itself; no handler of the page runs then. The outcomes of the calls into the SDK and the
  browser travel with the event.
\<close>

datatype event =
    Click bool
  | SocketOpen nat capture_outcome
  | SocketMessage nat message
  | SocketError nat
  | SocketClose nat bool
  | SocketReopen nat
  | AudioEnded nat
  | ChunkAvailable nat blob

fun fire :: "(string \<Rightarrow> blob) \<Rightarrow> (blob \<Rightarrow> string) \<Rightarrow> state \<Rightarrow> event \<Rightarrow> state" where
  "fire dec enc s (Click ok) =
     (case toggleBtn s of None \<Rightarrow> s | Some b \<Rightarrow> toggleConnection ok s)"
| "fire dec enc s (SocketOpen k c) = socket_opened k c s"
| "fire dec enc s (SocketMessage k m) =
     (if k < length (sockets s) \<and> sockets s ! k = OPEN
      then handleWebSocketMessageEvent dec m s else s)"
| "fire dec enc s (SocketError k) =
     (if k < length (sockets s) \<and> sockets s ! k \<noteq> CLOSING
      then handleWebSocketErrorEvent s else s)"
| "fire dec enc s (SocketClose k ok) = socket_closed k ok s"
| "fire dec enc s (SocketReopen k) = socket_reopened k s"
| "fire dec enc s (AudioEnded i) = render_ended i s"
| "fire dec enc s (ChunkAvailable r chunk) =
     (if r < length (recorders s) then ondataavailable enc chunk s else s)"

definition run :: "(string \<Rightarrow> blob) \<Rightarrow> (blob \<Rightarrow> string) \<Rightarrow> state \<Rightarrow> event list \<Rightarrow> state" where
  "run dec enc s evs = foldl (fire dec enc) s evs"

text \<open>The socket variable and the stores: the variable is empty only while no socket has
  been created, and a recorder is created only after a socket.\<close>

definition socket_inv :: "state \<Rightarrow> bool" where
  "socket_inv s =
     ((case socket s of None \<Rightarrow> sockets s = [] | Some k \<Rightarrow> k < length (sockets s))
      \<and> (if recorders s = [] then True else sockets s \<noteq> []))"

text \<open>A page with a toggle button, before the first label is written.\<close>

definition page_button :: button where
  "page_button = \<lparr>textContent = [], active = False\<rparr>"

text \<open>A decoder and an encoder to run the handlers on concrete inputs: the bytes of a
  string are the codes of its characters, and back. They stand in for the SDK's codec in
  examples only; every theorem holds for any codec.\<close>

definition bytes_of :: "string \<Rightarrow> blob" where
  "bytes_of d = map (\<lambda>c. of_nat (of_char c)) d"

definition text_of :: "blob \<Rightarrow> string" where
  "text_of b = map (\<lambda>w. char_of (unat w)) b"

section \<open>Playback: rendering elements and the cursor\<close>

lemma playing_at_snoc:
  "playing_at (as @ [a]) = playing_at as @ (if phase a = Playing then [length as] else [])"
  by (auto simp: playing_at_def nth_append intro!: filter_cong)

lemma playing_at_update:
  "i < length as \<Longrightarrow> phase a \<noteq> Playing \<Longrightarrow>
   playing_at (as[i := a]) = filter (\<lambda>j. j \<noteq> i) (playing_at as)"
  by (auto simp: playing_at_def nth_list_update intro!: filter_cong)

lemma playing_at_mem:
  "i \<in> set (playing_at as) \<longleftrightarrow> i < length as \<and> phase (as ! i) = Playing"
  by (auto simp: playing_at_def)

lemma map_src_update:
  "i < length as \<Longrightarrow> map src (as[i := Audio (src (as ! i)) p]) = map src as"
  by (simp add: map_update list_update_same_conv)

lemma playAudio_fires:
  assumes "audioQueue s \<noteq> []" "\<not> isPlaying s"
  shows "playAudio s = s\<lparr>isPlaying := True, audioQueue := tl (audioQueue s),
           audios := audios s @ [Audio (hd (audioQueue s)) Playing],
           currentAudio := Some (length (audios s))\<rparr>"
  using assms by (cases "audioQueue s") (simp_all add: playAudio_def array_shift_def)

lemma playAudio_idle: "audioQueue s = [] \<or> isPlaying s \<Longrightarrow> playAudio s = s"
  by (auto simp: playAudio_def)

lemma playAudio_feed:
  "map src (audios (playAudio s)) @ audioQueue (playAudio s) = map src (audios s) @ audioQueue s"
proof (cases "audioQueue s = [] \<or> isPlaying s")
  case True
  then show ?thesis by (simp add: playAudio_idle)
next
  case False
  then show ?thesis by (simp add: playAudio_fires)
qed

lemma player_inv_playAudio:
  assumes "rendering s = []" "\<not> isPlaying s" "audioQueue s \<noteq> []"
  shows "player_inv (playAudio s)"
  using assms by (simp add: playAudio_fires player_inv_def rendering_def playing_at_snoc)

lemma player_inv_enqueue:
  assumes "player_inv s"
  shows "player_inv (handleWebSocketMessageEvent dec (audio_output d) s)"
proof (cases "isPlaying s")
  case True
  with assms show ?thesis
    by (simp add: handleWebSocketMessageEvent_def audio_output_def playAudio_idle
        player_inv_def rendering_def split: option.splits)
next
  case False
  with assms have "rendering s = []" by (simp add: player_inv_def)
  with False show ?thesis
    by (simp add: handleWebSocketMessageEvent_def audio_output_def player_inv_playAudio
        rendering_def)
qed

lemma player_inv_render_ended:
  assumes "player_inv s"
  shows "player_inv (render_ended i s)"
proof (cases "i < length (audios s) \<and> phase (audios s ! i) = Playing")
  case False
  then show ?thesis using assms by (auto simp: render_ended_def)
next
  case True
  then have "i \<in> set (rendering s)" by (simp add: rendering_def playing_at_mem)
  with assms have r: "rendering s = [i]"
    by (auto simp: player_inv_def split: if_splits option.splits)
  let ?t = "s\<lparr>audios := (audios s)[i := Audio (src (audios s ! i)) Ended]\<rparr>"
  from True r have rt: "rendering (?t\<lparr>isPlaying := False\<rparr>) = []"
    by (simp add: rendering_def playing_at_update)
  show ?thesis
  proof (cases "audioQueue s = []")
    case True
    with rt \<open>i < length (audios s) \<and> phase (audios s ! i) = Playing\<close> show ?thesis
      by (simp add: render_ended_def onended_def player_inv_def)
  next
    case False
    with rt have "player_inv (playAudio (?t\<lparr>isPlaying := False\<rparr>))"
      by (intro player_inv_playAudio) simp_all
    with False \<open>i < length (audios s) \<and> phase (audios s ! i) = Playing\<close> show ?thesis
      by (simp add: render_ended_def onended_def)
  qed
qed

lemma onended_feed:
  "map src (audios (onended s)) @ audioQueue (onended s) = map src (audios s) @ audioQueue s"
  by (simp add: onended_def Let_def playAudio_feed)

lemma render_ended_feed:
  "map src (audios (render_ended i s)) @ audioQueue (render_ended i s)
   = map src (audios s) @ audioQueue s"
  by (simp add: render_ended_def onended_feed map_src_update)

lemma enqueue_feed:
  "map src (audios (handleWebSocketMessageEvent dec (audio_output d) s))
     @ audioQueue (handleWebSocketMessageEvent dec (audio_output d) s)
   = map src (audios s) @ audioQueue s @ [dec d]"
  by (simp add: handleWebSocketMessageEvent_def audio_output_def playAudio_feed)

lemma player_inv_step: "player_inv s \<Longrightarrow> player_inv (playback_step dec s ev)"
  by (cases ev) (simp_all add: player_inv_enqueue player_inv_render_ended)

lemma player_inv_run: "player_inv s \<Longrightarrow> player_inv (playback_run dec s evs)"
  unfolding playback_run_def
  by (induction evs arbitrary: s) (simp_all add: player_inv_step)

lemma step_feed:
  "map src (audios (playback_step dec s ev)) @ audioQueue (playback_step dec s ev)
   = map src (audios s) @ audioQueue s @ map dec (enqueued [ev])"
  by (cases ev) (simp_all add: enqueue_feed render_ended_feed)

lemma run_feed:
  "map src (audios (playback_run dec s evs)) @ audioQueue (playback_run dec s evs)
   = map src (audios s) @ audioQueue s @ map dec (enqueued evs)"
  unfolding playback_run_def
proof (induction evs arbitrary: s)
  case Nil
  show ?case by simp
next
  case (Cons ev evs)
  have "enqueued (ev # evs) = enqueued [ev] @ enqueued evs" by (cases ev) simp_all
  with Cons[of "playback_step dec s ev"] step_feed[of dec s ev] show ?case
    by simp
qed

lemma playAudio_phases:
  "(Paused \<in> set (map phase (audios (playAudio s)))) = (Paused \<in> set (map phase (audios s)))"
proof (cases "audioQueue s = [] \<or> isPlaying s")
  case True
  then show ?thesis by (simp add: playAudio_idle)
next
  case False
  then show ?thesis by (simp add: playAudio_fires)
qed

lemma onended_phases:
  "(Paused \<in> set (map phase (audios (onended s)))) = (Paused \<in> set (map phase (audios s)))"
proof (cases "audioQueue s = []")
  case True
  then show ?thesis by (simp add: onended_def)
next
  case False
  then show ?thesis
    using playAudio_phases[of "s\<lparr>isPlaying := False\<rparr>"] by (simp add: onended_def)
qed

lemma update_keeps_other:
  "i < length xs \<Longrightarrow> xs ! i \<noteq> p \<Longrightarrow> v \<noteq> p \<Longrightarrow> (p \<in> set (xs[i := v])) = (p \<in> set xs)"
proof
  assume a: "i < length xs" "xs ! i \<noteq> p" "v \<noteq> p" and "p \<in> set (xs[i := v])"
  then have "p \<in> insert v (set xs)" using set_update_subset_insert[of xs i v] by auto
  with a show "p \<in> set xs" by simp
next
  assume a: "i < length xs" "xs ! i \<noteq> p" "v \<noteq> p" and "p \<in> set xs"
  then obtain j where j: "j < length xs" "xs ! j = p" by (auto simp: in_set_conv_nth)
  with a have "j \<noteq> i" by auto
  with j have "j < length (xs[i := v])" "xs[i := v] ! j = p" by simp_all
  then show "p \<in> set (xs[i := v])" by (metis nth_mem)
qed

lemma render_ended_phases:
  "(Paused \<in> set (map phase (audios (render_ended i s))))
     = (Paused \<in> set (map phase (audios s)))"
proof (cases "i < length (audios s) \<and> phase (audios s ! i) = Playing")
  case False
  then show ?thesis by (auto simp: render_ended_def)
next
  case True
  then have "(Paused \<in> set ((map phase (audios s))[i := Ended]))
      = (Paused \<in> set (map phase (audios s)))"
    by (intro update_keeps_other) simp_all
  with True show ?thesis
    by (simp add: render_ended_def onended_phases map_update del: set_map)
qed

lemma step_phases:
  "(Paused \<in> set (map phase (audios (playback_step dec s ev))))
     = (Paused \<in> set (map phase (audios s)))"
proof (cases ev)
  case (Enqueue d)
  then show ?thesis
    by (simp add: handleWebSocketMessageEvent_def audio_output_def playAudio_phases
        del: set_map)
next
  case (RenderEnded i)
  then show ?thesis by (simp add: render_ended_phases del: set_map)
qed

lemma run_phases:
  "(Paused \<in> set (map phase (audios (playback_run dec s evs))))
     = (Paused \<in> set (map phase (audios s)))"
  unfolding playback_run_def
  by (induction evs arbitrary: s) (simp_all add: step_phases del: set_map)

lemma player_inv_progress: "player_inv s \<Longrightarrow> isPlaying s \<or> audioQueue s = []"
  by (auto simp: player_inv_def split: if_splits)

lemma player_inv_single:
  "player_inv s \<Longrightarrow> length (rendering s) \<le> 1 \<and> (isPlaying s \<longleftrightarrow> rendering s \<noteq> [])"
  by (auto simp: player_inv_def split: if_splits option.splits)

lemma player_inv_init: "player_inv (init btn)"
  by (cases btn)
    (simp_all add: init_def updateToggleButtonState_def player_inv_def rendering_def
      playing_at_def)

lemma onended_stopAudio: "onended (stopAudio s) = stopAudio s"
  by (simp add: onended_def stopAudio_def split: option.splits)

lemma onended_pow_stopAudio: "(onended ^^ n) (stopAudio s) = stopAudio s"
  by (induction n) (simp_all add: onended_stopAudio)

lemma pause_feed: "map src (pause i as) = map src as"
  by (simp add: pause_def map_src_update)

lemma playing_at_pause_current: "playing_at as = [i] \<Longrightarrow> playing_at (pause i as) = []"
proof -
  assume a: "playing_at as = [i]"
  then have "i \<in> set (playing_at as)" by simp
  then have "i < length as \<and> phase (as ! i) = Playing" by (simp add: playing_at_mem)
  with a show ?thesis by (simp add: pause_def playing_at_update)
qed

lemma playing_at_pause_idle: "playing_at as = [] \<Longrightarrow> playing_at (pause i as) = []"
proof -
  assume a: "playing_at as = []"
  have "\<not> (i < length as \<and> phase (as ! i) = Playing)"
    using a playing_at_mem[of i as] by auto
  then have "pause i as = as" by (auto simp: pause_def)
  with a show ?thesis by simp
qed

lemma rendering_stopAudio: "player_inv s \<Longrightarrow> rendering (stopAudio s) = []"
  by (auto simp: player_inv_def stopAudio_def rendering_def playing_at_pause_current
      playing_at_pause_idle split: if_splits option.splits)

lemma player_inv_stopAudio: "player_inv s \<Longrightarrow> player_inv (stopAudio s)"
  using rendering_stopAudio[of s]
  by (simp add: player_inv_def) (simp add: stopAudio_def)

section \<open>Session fields across the handlers\<close>

lemma connects_connect: "connects (connect ok s) = connects s @ [chatGroupId s]"
  by (simp add: connect_def Let_def updateToggleButtonState_def handleError_def
      split: option.splits)

lemma playAudio_session:
  "chatGroupId (playAudio s) = chatGroupId s" "connected (playAudio s) = connected s"
  "connects (playAudio s) = connects s" "resumeChats (playAudio s) = resumeChats s"
  by (simp_all add: playAudio_def Let_def array_shift_def split: list.splits)

lemma stopAudio_session:
  "chatGroupId (stopAudio s) = chatGroupId s" "connected (stopAudio s) = connected s"
  "connects (stopAudio s) = connects s" "resumeChats (stopAudio s) = resumeChats s"
  by (simp_all add: stopAudio_def Let_def split: option.splits)

lemma message_session:
  "connected (handleWebSocketMessageEvent dec m s) = connected s"
  "connects (handleWebSocketMessageEvent dec m s) = connects s"
  "chatGroupId (handleWebSocketMessageEvent dec m s) =
     (if msg_type m = ''chat_metadata'' then Some (msg_chatGroupId m) else chatGroupId s)"
  by (simp_all add: handleWebSocketMessageEvent_def Let_def playAudio_session
      stopAudio_session)

lemma messages_session:
  "connected (foldl (\<lambda>s m. handleWebSocketMessageEvent dec m s) s ms) = connected s
   \<and> connects (foldl (\<lambda>s m. handleWebSocketMessageEvent dec m s) s ms) = connects s
   \<and> chatGroupId (foldl (\<lambda>s m. handleWebSocketMessageEvent dec m s) s ms) =
       (case last_metadata ms of Some g \<Rightarrow> Some g | None \<Rightarrow> chatGroupId s)"
  by (induction ms arbitrary: s) (simp_all add: message_session split: option.splits)

section \<open>The explicit form of disconnect\<close>

lemma stopAudio_explicit:
  "stopAudio s =
     s\<lparr>audios := (case currentAudio s of None \<Rightarrow> audios s | Some i \<Rightarrow> pause i (audios s)),
       currentAudio := None, isPlaying := False, audioQueue := []\<rparr>"
  by (cases "currentAudio s") (simp_all add: stopAudio_def)

lemma disconnect_stages:
  "disconnect s =
     updateToggleButtonState
       ((stopAudio s)\<lparr>recorders :=
            (case recorder (stopAudio s) of None \<Rightarrow> recorders (stopAudio s)
             | Some r \<Rightarrow> stop r (recorders (stopAudio s))),
          recorder := None, audioStream := None, connected := False,
          chatGroupId := (if resumeChats (stopAudio s) then chatGroupId (stopAudio s) else None),
          sockets := (case socket (stopAudio s) of None \<Rightarrow> sockets (stopAudio s)
                      | Some k \<Rightarrow> close k (sockets (stopAudio s))),
          errors := (case socket (stopAudio s) of None \<Rightarrow> errors (stopAudio s)
                     | Some k \<Rightarrow> errors (stopAudio s) @ [WebSocketDisconnected]),
          isConnected := False\<rparr>)"
proof -
  obtain s1 where s1: "s1 = stopAudio s" by simp
  show ?thesis
    unfolding disconnect_def s1[symmetric] Let_def
    by (cases "recorder s1"; cases "socket s1"; cases "resumeChats s1")
      (simp_all add: handleWebSocketCloseEvent_def handleError_def)
qed

lemma close_close: "close k (close k ss) = close k ss"
  by (auto simp: close_def)

lemma disconnect_explicit:
  "disconnect s =
     s\<lparr>audios := (case currentAudio s of None \<Rightarrow> audios s | Some i \<Rightarrow> pause i (audios s)),
       currentAudio := None, isPlaying := False, audioQueue := [],
       recorders := (case recorder s of None \<Rightarrow> recorders s | Some r \<Rightarrow> stop r (recorders s)),
       recorder := None, audioStream := None, connected := False,
       chatGroupId := (if resumeChats s then chatGroupId s else None),
       sockets := (case socket s of None \<Rightarrow> sockets s | Some k \<Rightarrow> close k (sockets s)),
       errors := (case socket s of None \<Rightarrow> errors s
                  | Some k \<Rightarrow> errors s @ [WebSocketDisconnected]),
       isConnected := False,
       toggleBtn := (case toggleBtn s of None \<Rightarrow> None
                     | Some b \<Rightarrow>
                         Some (b\<lparr>textContent := ''Start Conversation'', active := False\<rparr>))\<rparr>"
  by (cases "toggleBtn s"; cases "recorder s"; cases "socket s"; rule state.equality;
      simp add: disconnect_stages stopAudio_explicit updateToggleButtonState_def)

lemma close_handler_in_disconnect:
  "\<not> connected s \<Longrightarrow> handleWebSocketCloseEvent ok s = handleWebSocketCloseEvent False s"
  by (simp add: handleWebSocketCloseEvent_def)

section \<open>Live sockets across connect and disconnect\<close>

lemma length_close: "length (close k ss) = length ss"
  by (simp add: close_def)

lemma length_stop: "length (stop r rs) = length rs"
  by (simp add: stop_def)

lemma live_close:
  "filter (\<lambda>j. close k ss ! j = CONNECTING \<or> close k ss ! j = OPEN) [0..<length ss]
   = filter (\<lambda>j. j \<noteq> k) (filter (\<lambda>j. ss ! j = CONNECTING \<or> ss ! j = OPEN) [0..<length ss])"
  by (auto simp: close_def nth_list_update intro!: filter_cong)

lemma live_disconnect: "live (disconnect s) = filter (\<lambda>j. Some j \<noteq> socket s) (live s)"
proof (cases "socket s")
  case None
  then show ?thesis by (simp add: live_def disconnect_explicit)
next
  case (Some k)
  then show ?thesis by (simp add: live_def disconnect_explicit length_close live_close)
qed

lemma connects_disconnect: "connects (disconnect s) = connects s"
  by (simp add: disconnect_explicit)

lemma connect_success:
  "connect True s =
     s\<lparr>client := True, connects := connects s @ [chatGroupId s],
       sockets := sockets s @ [CONNECTING], socket := Some (length (sockets s)),
       isConnected := True,
       toggleBtn := (case toggleBtn s of None \<Rightarrow> None
                     | Some b \<Rightarrow>
                         Some (b\<lparr>textContent := ''Stop Conversation'', active := True\<rparr>))\<rparr>"
  by (cases "toggleBtn s"; cases "client s"; rule state.equality;
      simp add: connect_def Let_def updateToggleButtonState_def)

lemma connect_failure:
  "connect False s =
     s\<lparr>client := True, connects := connects s @ [chatGroupId s],
       errors := errors s @ [ConnectFailed]\<rparr>"
  by (cases "client s"; rule state.equality; simp add: connect_def Let_def handleError_def)

lemma live_snoc:
  "filter (\<lambda>k. (ss @ [CONNECTING]) ! k = CONNECTING \<or> (ss @ [CONNECTING]) ! k = OPEN)
     [0..<length ss] = filter (\<lambda>k. ss ! k = CONNECTING \<or> ss ! k = OPEN) [0..<length ss]"
  by (auto simp: nth_append intro!: filter_cong)

lemma sockets_connect: "sockets (connect True s) = sockets s @ [CONNECTING]"
  by (simp add: connect_success)

lemma socket_connect: "socket (connect True s) = Some (length (sockets s))"
  by (simp add: connect_success)

lemma live_connect: "live (connect True s) = live s @ [length (sockets s)]"
  unfolding live_def sockets_connect
  by (simp add: live_snoc)

lemma socket_handleClose:
  "socket (handleWebSocketCloseEvent ok s) =
     (if connected s \<and> ok then Some (length (sockets s)) else socket s)"
  by (cases ok) (simp_all add: handleWebSocketCloseEvent_def connect_success connect_failure
      handleError_def)

lemma sockets_handleClose:
  "sockets (handleWebSocketCloseEvent ok s) =
     (if connected s \<and> ok then sockets s @ [CONNECTING] else sockets s)"
  by (cases ok) (simp_all add: handleWebSocketCloseEvent_def connect_success connect_failure
      handleError_def)

lemma closed_not_live: "k \<notin> set (live (socket_closed k ok s))"
  by (auto simp: socket_closed_def live_def sockets_handleClose nth_append)

lemmas handler_defs = init_def updateToggleButtonState_def handleWebSocketMessageEvent_def
  audio_output_def chat_metadata_def playAudio_def array_shift_def render_ended_def onended_def
  connect_def socket_opened_def socket_closed_def socket_reopened_def
  handleWebSocketOpenEvent_def captureAudio_def
  handleWebSocketCloseEvent_def handleError_def toggleConnection_def disconnect_def
  stopAudio_def pause_def close_def stop_def ondataavailable_def run_def page_button_def

section \<open>The playback cursor in every run of the page\<close>

lemma player_inv_cong:
  "isPlaying t = isPlaying s \<Longrightarrow> currentAudio t = currentAudio s \<Longrightarrow> audios t = audios s \<Longrightarrow>
   audioQueue t = audioQueue s \<Longrightarrow> player_inv t = player_inv s"
  by (simp add: player_inv_def rendering_def split: option.splits)

lemma player_inv_connect: "player_inv (connect ok s) = player_inv s"
  by (cases ok) (rule player_inv_cong; simp add: connect_success connect_failure)+

lemma player_inv_disconnect: "player_inv s \<Longrightarrow> player_inv (disconnect s)"
proof -
  assume "player_inv s"
  then have "player_inv (stopAudio s)" by (rule player_inv_stopAudio)
  moreover have "player_inv (disconnect s) = player_inv (stopAudio s)"
    by (rule player_inv_cong; simp add: disconnect_explicit stopAudio_explicit)
  ultimately show ?thesis by simp
qed

lemma player_inv_handleError: "player_inv (handleError e s) = player_inv s"
  by (rule player_inv_cong; simp add: handleError_def)

lemma player_inv_captureAudio: "player_inv (captureAudio c s) = player_inv s"
  by (cases c; rule player_inv_cong; simp add: captureAudio_def)

lemma player_inv_ondataavailable: "player_inv (ondataavailable enc chunk s) = player_inv s"
  by (rule player_inv_cong; simp add: ondataavailable_def split: option.splits)

lemma player_inv_message:
  assumes "player_inv s"
  shows "player_inv (handleWebSocketMessageEvent dec m s)"
proof -
  have "msg_type m = ''audio_output'' \<Longrightarrow>
      handleWebSocketMessageEvent dec m s
        = handleWebSocketMessageEvent dec (audio_output (msg_data m)) s"
    by (simp add: handleWebSocketMessageEvent_def audio_output_def)
  moreover have "msg_type m = ''chat_metadata'' \<Longrightarrow>
      player_inv (handleWebSocketMessageEvent dec m s) = player_inv s"
    by (rule player_inv_cong; simp add: handleWebSocketMessageEvent_def)
  moreover have "msg_type m \<noteq> ''chat_metadata'' \<Longrightarrow> msg_type m = ''user_interruption'' \<Longrightarrow>
      handleWebSocketMessageEvent dec m s = stopAudio s"
    by (simp add: handleWebSocketMessageEvent_def)
  moreover have "msg_type m \<noteq> ''chat_metadata'' \<Longrightarrow> msg_type m \<noteq> ''audio_output'' \<Longrightarrow>
      msg_type m \<noteq> ''user_interruption'' \<Longrightarrow> handleWebSocketMessageEvent dec m s = s"
    by (simp add: handleWebSocketMessageEvent_def)
  ultimately show ?thesis
    using assms player_inv_enqueue[OF assms, of dec "msg_data m"] player_inv_stopAudio[OF assms]
    by (cases "msg_type m = ''chat_metadata''"; cases "msg_type m = ''audio_output''";
        cases "msg_type m = ''user_interruption''") simp_all
qed

lemma player_inv_sockets: "player_inv (s\<lparr>sockets := ss\<rparr>) = player_inv s"
  by (rule player_inv_cong; simp)

lemma player_inv_fire: "player_inv s \<Longrightarrow> player_inv (fire dec enc s ev)"
proof (cases ev)
  case (Click ok)
  assume "player_inv s"
  then show ?thesis using Click
    by (simp add: toggleConnection_def player_inv_connect player_inv_disconnect
        split: option.splits)
next
  case (SocketOpen k c)
  assume "player_inv s"
  moreover have "player_inv (handleWebSocketOpenEvent c (s\<lparr>sockets := (sockets s)[k := OPEN]\<rparr>))
      = player_inv s"
    by (simp add: handleWebSocketOpenEvent_def player_inv_captureAudio)
      (rule player_inv_cong; simp)
  ultimately show ?thesis using SocketOpen by (simp add: socket_opened_def)
next
  case (SocketMessage k m)
  assume "player_inv s"
  then show ?thesis using SocketMessage by (simp add: player_inv_message)
next
  case (SocketError k)
  assume "player_inv s"
  then show ?thesis using SocketError
    by (simp add: handleWebSocketErrorEvent_def player_inv_handleError)
next
  case (SocketClose k ok)
  assume "player_inv s"
  then show ?thesis using SocketClose
    by (simp add: socket_closed_def handleWebSocketCloseEvent_def player_inv_connect
        player_inv_handleError player_inv_sockets)
next
  case (SocketReopen k)
  assume "player_inv s"
  then show ?thesis using SocketReopen
    by (simp add: socket_reopened_def player_inv_sockets)
next
  case (AudioEnded i)
  assume "player_inv s"
  then show ?thesis using AudioEnded by (simp add: player_inv_render_ended)
next
  case (ChunkAvailable r chunk)
  assume "player_inv s"
  then show ?thesis using ChunkAvailable by (simp add: player_inv_ondataavailable)
qed

lemma player_inv_reachable: "player_inv (run dec enc (init btn) evs)"
proof -
  have "player_inv s \<Longrightarrow> player_inv (foldl (fire dec enc) s evs)" for s
    by (induction evs arbitrary: s) (simp_all add: player_inv_fire)
  then show ?thesis unfolding run_def using player_inv_init by blast
qed

section \<open>The socket variable in every run of the page\<close>

lemma socket_inv_cong:
  "socket t = socket s \<Longrightarrow> length (sockets t) = length (sockets s) \<Longrightarrow>
   (recorders t = [] \<longleftrightarrow> recorders s = []) \<Longrightarrow> socket_inv t = socket_inv s"
  by (auto simp: socket_inv_def split: option.splits)

lemma socket_inv_connect: "socket_inv s \<Longrightarrow> socket_inv (connect ok s)"
  by (cases ok) (auto simp: socket_inv_def connect_success connect_failure split: option.splits)

lemma stop_eq_Nil: "(stop r rs = []) = (rs = [])"
  by (auto simp: stop_def)

lemma socket_inv_disconnect: "socket_inv (disconnect s) = socket_inv s"
  by (rule socket_inv_cong;
      simp add: disconnect_explicit length_close stop_eq_Nil split: option.splits)

lemma socket_inv_handleError: "socket_inv (handleError e s) = socket_inv s"
  by (rule socket_inv_cong; simp add: handleError_def)

lemma socket_inv_message: "socket_inv (handleWebSocketMessageEvent dec m s) = socket_inv s"
  by (rule socket_inv_cong;
      simp add: handleWebSocketMessageEvent_def playAudio_def array_shift_def stopAudio_explicit
        Let_def split: list.splits)

lemma socket_inv_render_ended: "socket_inv (render_ended i s) = socket_inv s"
  by (rule socket_inv_cong;
      simp add: render_ended_def onended_def playAudio_def array_shift_def Let_def
        split: list.splits)

lemma socket_inv_ondataavailable: "socket_inv (ondataavailable enc chunk s) = socket_inv s"
  by (rule socket_inv_cong; simp add: ondataavailable_def split: option.splits)

lemma socket_inv_status: "k < length (sockets s) \<Longrightarrow>
    socket_inv (s\<lparr>sockets := (sockets s)[k := st]\<rparr>) = socket_inv s"
  by (rule socket_inv_cong; simp)

lemma socket_inv_open:
  "sockets s \<noteq> [] \<Longrightarrow> socket_inv s \<Longrightarrow> socket_inv (handleWebSocketOpenEvent c s)"
  by (cases c) (auto simp: socket_inv_def handleWebSocketOpenEvent_def captureAudio_def
      split: option.splits)

lemma socket_inv_fire: "socket_inv s \<Longrightarrow> socket_inv (fire dec enc s ev)"
proof (cases ev)
  case (Click ok)
  assume "socket_inv s"
  then show ?thesis using Click
    by (simp add: toggleConnection_def socket_inv_connect socket_inv_disconnect
        split: option.splits)
next
  case (SocketOpen k c)
  assume a: "socket_inv s"
  show ?thesis
  proof (cases "k < length (sockets s) \<and> sockets s ! k = CONNECTING")
    case True
    then have "sockets (s\<lparr>sockets := (sockets s)[k := OPEN]\<rparr>) \<noteq> []" by auto
    moreover from True a have "socket_inv (s\<lparr>sockets := (sockets s)[k := OPEN]\<rparr>)"
      by (simp add: socket_inv_status)
    ultimately show ?thesis using True SocketOpen
      by (simp add: socket_opened_def socket_inv_open)
  next
    case False
    with a SocketOpen show ?thesis by (auto simp: socket_opened_def)
  qed
next
  case (SocketMessage k m)
  assume "socket_inv s"
  then show ?thesis using SocketMessage by (simp add: socket_inv_message)
next
  case (SocketError k)
  assume "socket_inv s"
  then show ?thesis using SocketError
    by (simp add: handleWebSocketErrorEvent_def socket_inv_handleError)
next
  case (SocketClose k ok)
  assume "socket_inv s"
  then show ?thesis using SocketClose
    by (simp add: socket_closed_def handleWebSocketCloseEvent_def socket_inv_connect
        socket_inv_handleError socket_inv_status)
next
  case (SocketReopen k)
  assume "socket_inv s"
  then show ?thesis using SocketReopen
    by (simp add: socket_reopened_def socket_inv_status)
next
  case (AudioEnded i)
  assume "socket_inv s"
  then show ?thesis using AudioEnded by (simp add: socket_inv_render_ended)
next
  case (ChunkAvailable r chunk)
  assume "socket_inv s"
  then show ?thesis using ChunkAvailable by (simp add: socket_inv_ondataavailable)
qed

lemma socket_inv_init: "socket_inv (init btn)"
  by (cases btn) (simp_all add: init_def updateToggleButtonState_def socket_inv_def)

lemma socket_inv_reachable: "socket_inv (run dec enc (init btn) evs)"
proof -
  have "socket_inv s \<Longrightarrow> socket_inv (foldl (fire dec enc) s evs)" for s
    by (induction evs arbitrary: s) (simp_all add: socket_inv_fire)
  then show ?thesis unfolding run_def using socket_inv_init by blast
qed

lemma recorder_implies_socket:
  assumes "r < length (recorders (run dec enc (init btn) evs))"
  shows "\<exists>k. socket (run dec enc (init btn) evs) = Some k
             \<and> k < length (sockets (run dec enc (init btn) evs))"
  using socket_inv_reachable[of dec enc btn evs] assms
  by (auto simp: socket_inv_def split: option.splits if_splits)

section \<open>Claims about the playback queue\<close>

text \<open>
  C1. For every sequence of enqueue operations (\<open>audio_output\<close> messages) interleaved with
  render completions, starting in a state where the playback cursor is consistent: the
  chunks whose rendering has started, in the order in which it started, followed by the
  chunks still waiting, are the chunks rendered and waiting before, followed by the enqueued
  chunks in the order of their arrival; at most one element is rendering; \<open>isPlaying\<close> is
  set exactly when an element is rendering; a chunk waits only while an element is
  rendering, so an enqueue on an idle player and the completion of an element with chunks
  waiting both start the next chunk; and the run cuts no element short: an element is
  paused afterwards only if one was before. The statement holds after every sequence, so it
  holds at every instant of a run.
\<close>

theorem playback_fifo_one_at_a_time:
  assumes "player_inv s"
  shows "map src (audios (playback_run dec s evs)) @ audioQueue (playback_run dec s evs)
           = map src (audios s) @ audioQueue s @ map dec (enqueued evs)
         \<and> length (rendering (playback_run dec s evs)) \<le> 1
         \<and> (isPlaying (playback_run dec s evs) \<longleftrightarrow> rendering (playback_run dec s evs) \<noteq> [])
         \<and> (isPlaying (playback_run dec s evs) \<or> audioQueue (playback_run dec s evs) = [])
         \<and> ((Paused \<in> set (map phase (audios (playback_run dec s evs))))
              = (Paused \<in> set (map phase (audios s))))"
  using run_feed[of dec s evs] player_inv_single[OF player_inv_run[OF assms, of dec evs]]
    player_inv_progress[OF player_inv_run[OF assms, of dec evs]]
    run_phases[of dec s evs]
  by simp

theorem playback_fifo_one_at_a_time_witness:
  "player_inv (init None)
   \<and> audios (playback_run bytes_of (init None) [Enqueue ''A'', Enqueue ''B'', RenderEnded 0])
       = [Audio [65] Ended, Audio [66] Playing]
   \<and> audioQueue (playback_run bytes_of (init None)
        [Enqueue ''A'', Enqueue ''B'', RenderEnded 0]) = []
   \<and> map src (audios (playback_run bytes_of (init None)
          [Enqueue ''A'', Enqueue ''B'', RenderEnded 0, Enqueue ''C'']))
     @ audioQueue (playback_run bytes_of (init None)
          [Enqueue ''A'', Enqueue ''B'', RenderEnded 0, Enqueue ''C''])
     = [[65], [66], [67]]
   \<and> rendering (playback_run bytes_of (init None)
          [Enqueue ''A'', Enqueue ''B'', RenderEnded 0, Enqueue ''C'']) = [1]"
  using playback_fifo_one_at_a_time[where s = "init None" and dec = bytes_of
      and evs = "[Enqueue ''A'', Enqueue ''B'', RenderEnded 0, Enqueue ''C'']"]
    playback_fifo_one_at_a_time[where s = "init None" and dec = bytes_of
      and evs = "[Enqueue ''A'', Enqueue ''B'', RenderEnded 0]"]
  by (simp add: player_inv_def playback_run_def init_def updateToggleButtonState_def
      handleWebSocketMessageEvent_def audio_output_def playAudio_def array_shift_def
      render_ended_def onended_def rendering_def playing_at_def bytes_of_def)

text \<open>
  C10. When \<open>playAudio\<close> runs with a non-empty queue and \<open>isPlaying\<close> clear, the dequeue
  yields the head of the queue and never \<open>undefined\<close>; the call starts the rendering of
  exactly that chunk in a new element, which becomes the current one, and leaves the rest of
  the queue. The state it produces has \<open>isPlaying\<close> set and an element rendering.
\<close>

theorem playAudio_dequeues_head:
  assumes "audioQueue s \<noteq> []" and "\<not> isPlaying s"
  shows "fst (array_shift (audioQueue s)) = Some (hd (audioQueue s))
         \<and> playAudio s = s\<lparr>isPlaying := True, audioQueue := tl (audioQueue s),
              audios := audios s @ [Audio (hd (audioQueue s)) Playing],
              currentAudio := Some (length (audios s))\<rparr>
         \<and> length (audios s) \<in> set (rendering (playAudio s))"
proof -
  from assms(1) have "fst (array_shift (audioQueue s)) = Some (hd (audioQueue s))"
    by (cases "audioQueue s") (simp_all add: array_shift_def)
  moreover note playAudio_fires[OF assms]
  moreover from assms have "length (audios s) \<in> set (rendering (playAudio s))"
    by (simp add: playAudio_fires rendering_def playing_at_snoc)
  ultimately show ?thesis by simp
qed

theorem playAudio_dequeues_head_witness:
  "audioQueue ((init None)\<lparr>audioQueue := [[1, 2], [3]]\<rparr>) \<noteq> []
   \<and> \<not> isPlaying ((init None)\<lparr>audioQueue := [[1, 2], [3]]\<rparr>)
   \<and> playAudio ((init None)\<lparr>audioQueue := [[1, 2], [3]]\<rparr>)
       = (init None)\<lparr>isPlaying := True, audioQueue := [[3]],
            audios := [Audio [1, 2] Playing], currentAudio := Some 0\<rparr>"
  using playAudio_dequeues_head[of "(init None)\<lparr>audioQueue := [[1, 2], [3]]\<rparr>"]
  by (simp add: init_def updateToggleButtonState_def)

text \<open>
  C5. After \<open>stopAudio\<close>, run in a state where the playback cursor is consistent, no
  element is rendering, the queue is empty and \<open>isPlaying\<close> is clear; the chunks of the
  elements created so far are unchanged; and any number of \<open>onended\<close> callbacks run
  afterwards leave the state exactly as \<open>stopAudio\<close> left it, so no element is created and
  none renders before the next enqueue.
\<close>

theorem stop_then_completions_silent:
  assumes "player_inv s"
  shows "(onended ^^ n) (stopAudio s) = stopAudio s
         \<and> rendering (stopAudio s) = []
         \<and> \<not> isPlaying (stopAudio s)
         \<and> audioQueue (stopAudio s) = []
         \<and> map src (audios (stopAudio s)) = map src (audios s)"
  using rendering_stopAudio[OF assms]
  by (simp add: onended_pow_stopAudio) (simp add: stopAudio_def pause_feed split: option.splits)

theorem stop_then_completions_silent_witness:
  "player_inv (playback_run bytes_of (init None) [Enqueue ''A'', Enqueue ''B''])
   \<and> (onended ^^ 3) (stopAudio (playback_run bytes_of (init None) [Enqueue ''A'', Enqueue ''B'']))
     = stopAudio (playback_run bytes_of (init None) [Enqueue ''A'', Enqueue ''B''])
   \<and> audios (stopAudio (playback_run bytes_of (init None) [Enqueue ''A'', Enqueue ''B'']))
     = [Audio [65] Paused]
   \<and> audioQueue (playback_run bytes_of (init None) [Enqueue ''A'', Enqueue ''B'']) = [[66]]"
  using stop_then_completions_silent[where n = 3
      and s = "playback_run bytes_of (init None) [Enqueue ''A'', Enqueue ''B'']"]
    player_inv_run[OF player_inv_init, of bytes_of None "[Enqueue ''A'', Enqueue ''B'']"]
  by (simp add: playback_run_def init_def updateToggleButtonState_def
      handleWebSocketMessageEvent_def audio_output_def playAudio_def array_shift_def
      stopAudio_def pause_def bytes_of_def)

section \<open>Claims about the message dispatch\<close>

text \<open>
  C9. A message whose type is none of \<open>chat_metadata\<close>, \<open>audio_output\<close> and
  \<open>user_interruption\<close> is ignored: the handler returns the state it was given, with the
  session, the playback queue and the record of errors unchanged.
\<close>

theorem unrecognized_message_ignored:
  assumes "msg_type m \<noteq> ''chat_metadata''" and "msg_type m \<noteq> ''audio_output''"
    and "msg_type m \<noteq> ''user_interruption''"
  shows "handleWebSocketMessageEvent dec m s = s"
  using assms by (simp add: handleWebSocketMessageEvent_def)

theorem unrecognized_message_ignored_witness:
  "handleWebSocketMessageEvent bytes_of
     \<lparr>msg_type = ''assistant_message'', msg_chatGroupId = [], msg_data = ''AAAA''\<rparr> (init None)
   = init None"
  using unrecognized_message_ignored[of
      "\<lparr>msg_type = ''assistant_message'', msg_chatGroupId = [], msg_data = ''AAAA''\<rparr>"
      bytes_of "init None"]
  by simp

section \<open>Claims about the connection manager\<close>

text \<open>
  C2. When the close handler runs while \<open>connected\<close> is set, the SDK's connect is called
  exactly once, with the current \<open>chatGroupId\<close> as the group to resume. When the flag is
  clear, connect is not called and no socket is created, and the closure is reported through
  \<open>handleError\<close>.
\<close>

theorem close_event_reconnect_policy:
  "(connected s \<longrightarrow>
      connects (handleWebSocketCloseEvent ok s) = connects s @ [chatGroupId s])
   \<and> (\<not> connected s \<longrightarrow>
      connects (handleWebSocketCloseEvent ok s) = connects s
      \<and> sockets (handleWebSocketCloseEvent ok s) = sockets s
      \<and> errors (handleWebSocketCloseEvent ok s) = errors s @ [WebSocketDisconnected])"
  by (simp add: handleWebSocketCloseEvent_def connects_connect handleError_def)

theorem close_event_reconnect_policy_witness:
  "connected (handleWebSocketMessageEvent bytes_of (chat_metadata ''g1'')
       (socket_opened 0 CaptureStarted (connect True (init None))))
   \<and> connects (handleWebSocketCloseEvent True
        (handleWebSocketMessageEvent bytes_of (chat_metadata ''g1'')
          (socket_opened 0 CaptureStarted (connect True (init None))))) = [None, Some ''g1'']
   \<and> \<not> connected (connect True (init None))
   \<and> connects (handleWebSocketCloseEvent True (connect True (init None))) = [None]
   \<and> errors (handleWebSocketCloseEvent True (connect True (init None)))
       = [WebSocketDisconnected]"
  using close_event_reconnect_policy[of
      "handleWebSocketMessageEvent bytes_of (chat_metadata ''g1'')
         (socket_opened 0 CaptureStarted (connect True (init None)))" True]
    close_event_reconnect_policy[of "connect True (init None)" True]
  by (simp add: init_def updateToggleButtonState_def handleWebSocketMessageEvent_def
      chat_metadata_def connect_def socket_opened_def handleWebSocketOpenEvent_def
      captureAudio_def)

text \<open>
  C4. With \<open>resumeChats\<close> set and \<open>connected\<close> set, after any list of messages whose last
  \<open>chat_metadata\<close> carries the group \<open>g\<close>, the connect call made by the close handler passes
  \<open>g\<close> as the group to resume. With \<open>resumeChats\<close> clear, \<open>disconnect\<close> leaves
  \<open>chatGroupId\<close> undefined.
\<close>

theorem resume_group_carried_or_cleared:
  "(resumeChats s \<longrightarrow> connected s \<longrightarrow> last_metadata ms = Some g \<longrightarrow>
      connects (handleWebSocketCloseEvent ok
        (foldl (\<lambda>s m. handleWebSocketMessageEvent dec m s) s ms)) = connects s @ [Some g])
   \<and> (\<not> resumeChats s \<longrightarrow> chatGroupId (disconnect s) = None)"
  using messages_session[of dec s ms]
  by (simp add: handleWebSocketCloseEvent_def connects_connect disconnect_explicit)

theorem resume_group_carried_or_cleared_witness:
  "resumeChats (socket_opened 0 CaptureStarted (connect True (init None)))
   \<and> connected (socket_opened 0 CaptureStarted (connect True (init None)))
   \<and> last_metadata [chat_metadata ''g1'', audio_output ''AA'', chat_metadata ''g2'',
        audio_output ''BB''] = Some ''g2''
   \<and> connects (handleWebSocketCloseEvent True
        (foldl (\<lambda>s m. handleWebSocketMessageEvent bytes_of m s)
           (socket_opened 0 CaptureStarted (connect True (init None)))
           [chat_metadata ''g1'', audio_output ''AA'', chat_metadata ''g2'', audio_output ''BB'']))
       = [None, Some ''g2'']
   \<and> \<not> resumeChats ((init None)\<lparr>resumeChats := False, chatGroupId := Some ''g1''\<rparr>)
   \<and> chatGroupId (disconnect ((init None)\<lparr>resumeChats := False, chatGroupId := Some ''g1''\<rparr>))
       = None"
  using resume_group_carried_or_cleared[of
      "socket_opened 0 CaptureStarted (connect True (init None))"
      "[chat_metadata ''g1'', audio_output ''AA'', chat_metadata ''g2'', audio_output ''BB'']"
      "''g2''" True bytes_of]
    resume_group_carried_or_cleared[of
      "(init None)\<lparr>resumeChats := False, chatGroupId := Some ''g1''\<rparr>" "[]" "[]" True bytes_of]
  by (simp add: init_def updateToggleButtonState_def chat_metadata_def audio_output_def
      connect_def socket_opened_def handleWebSocketOpenEvent_def captureAudio_def)

text \<open>
  C3 (as the code has it). \<open>connect\<close> has no guard of its own: every successful call
  creates a new live socket beside the ones that exist and points \<open>socket\<close> at it. The guard
  is in \<open>toggleConnection\<close>: while \<open>isConnected\<close> is set a click makes no connect call and
  creates no socket; it disconnects, which takes the socket the page holds out of the live
  ones.
\<close>

theorem toggle_guards_connect:
  "(isConnected s \<longrightarrow>
      connects (toggleConnection ok s) = connects s
      \<and> live (toggleConnection ok s) = filter (\<lambda>j. Some j \<noteq> socket s) (live s))
   \<and> live (connect True s) = live s @ [length (sockets s)]
   \<and> socket (connect True s) = Some (length (sockets s))"
  by (simp add: toggleConnection_def connects_disconnect live_disconnect live_connect
      socket_connect)

theorem toggle_guards_connect_witness:
  "isConnected (connect True (init (Some page_button)))
   \<and> live (connect True (init (Some page_button))) = [0]
   \<and> connects (toggleConnection True (connect True (init (Some page_button)))) = [None]
   \<and> live (toggleConnection True (connect True (init (Some page_button)))) = []"
  using toggle_guards_connect[of "connect True (init (Some page_button))" True]
    toggle_guards_connect[of "init (Some page_button)" True]
  by (simp add: init_def updateToggleButtonState_def connect_success live_def page_button_def)

text \<open>
  C3 as stated fails in a run of the page. The page connects and socket 0 opens. The
  connection of socket 0 ends without a request of the page; \<open>isConnected\<close> and \<open>connected\<close>
  are still set, and the close handler calls \<open>connect\<close>, which creates socket 1. The SDK
  then connects socket 0 again by itself, and sockets 0 and 1 are both live.
\<close>

theorem second_transport_counterexample:
  "isConnected (run bytes_of text_of (init (Some page_button))
        [Click True, SocketOpen 0 CaptureStarted])
   \<and> live (run bytes_of text_of (init (Some page_button))
        [Click True, SocketOpen 0 CaptureStarted]) = [0]
   \<and> live (run bytes_of text_of (init (Some page_button))
        [Click True, SocketOpen 0 CaptureStarted, SocketClose 0 True]) = [1]
   \<and> live (run bytes_of text_of (init (Some page_button))
        [Click True, SocketOpen 0 CaptureStarted, SocketClose 0 True, SocketReopen 0]) = [0, 1]"
  by (simp add: handler_defs live_def)

text \<open>
  C8 (as the code has it). On every close the socket stops being live: \<open>disconnect\<close>
  requests the close of the socket the page holds, and a close event comes from a socket
  that is closed. The reference is not set to null: \<open>disconnect\<close> leaves \<open>socket\<close> as it
  is, and after a close event \<open>socket\<close> still holds a socket (the new one when the handler
  reconnected, the old one otherwise).
\<close>

theorem socket_closed_reference_kept:
  "socket (disconnect s) = socket s
   \<and> (socket s = Some j \<longrightarrow> j \<notin> set (live (disconnect s)))
   \<and> k \<notin> set (live (socket_closed k ok s))
   \<and> (socket s = Some j \<longrightarrow> socket (socket_closed k ok s) \<noteq> None)"
proof -
  have "socket (disconnect s) = socket s" by (simp add: disconnect_explicit)
  moreover have "socket s = Some j \<longrightarrow> j \<notin> set (live (disconnect s))"
    by (simp add: live_disconnect)
  moreover have "socket s = Some j \<longrightarrow> socket (socket_closed k ok s) \<noteq> None"
    by (simp add: socket_closed_def socket_handleClose)
  ultimately show ?thesis by (simp add: closed_not_live)
qed

theorem socket_closed_reference_kept_witness:
  "socket (socket_opened 0 CaptureStarted (connect True (init (Some page_button)))) = Some 0
   \<and> socket (disconnect (socket_opened 0 CaptureStarted (connect True (init (Some page_button)))))
       = Some 0
   \<and> 0 \<notin> set (live (disconnect
        (socket_opened 0 CaptureStarted (connect True (init (Some page_button))))))
   \<and> socket (socket_closed 0 True
        (socket_opened 0 CaptureStarted (connect True (init (Some page_button))))) = Some 1"
  using socket_closed_reference_kept[of
      "socket_opened 0 CaptureStarted (connect True (init (Some page_button)))" 0 0 True]
  by (simp add: handler_defs)

text \<open>
  C8 as stated fails. After a user-initiated close (\<open>disconnect\<close>, whatever close event
  is tried after it) \<open>socket\<close> still holds socket 0; after a close that was not requested,
  followed by a reconnect that fails, it still holds socket 0 as well.
\<close>

theorem socket_reference_kept_counterexample:
  "socket (disconnect (socket_opened 0 CaptureStarted (connect True (init (Some page_button)))))
     = Some 0
   \<and> socket (run bytes_of text_of (init (Some page_button))
        [Click True, SocketOpen 0 CaptureStarted, Click True, SocketClose 0 True]) = Some 0
   \<and> socket (run bytes_of text_of (init (Some page_button))
        [Click True, SocketOpen 0 CaptureStarted, SocketClose 0 False]) = Some 0"
  by (simp add: handler_defs)

text \<open>
  C7 (as the code has it). A second \<open>disconnect\<close> returns the state the first call
  returned in every variable of the page and in every store: \<open>recorder\<close>, \<open>audioStream\<close>,
  \<open>connected\<close>, \<open>isPlaying\<close>, \<open>audioQueue\<close>, \<open>chatGroupId\<close>, \<open>isConnected\<close> and the rest.
  The one difference is in what is reported: once the page holds a socket, every call closes
  it again, the close handler runs inside the call, and \<open>handleError\<close> receives one more
  \<open>WebSocket disconnected\<close> error. While the page holds no socket the second call changes
  nothing at all.
\<close>

theorem disconnect_repeated:
  "disconnect (disconnect s) =
     (disconnect s)\<lparr>errors := errors (disconnect s) @
        (case socket s of None \<Rightarrow> [] | Some k \<Rightarrow> [WebSocketDisconnected])\<rparr>"
  by (cases "socket s"; cases "toggleBtn s"; rule state.equality;
      simp add: disconnect_explicit close_close)

theorem disconnect_repeated_witness:
  "disconnect (disconnect (init (Some page_button))) = disconnect (init (Some page_button))
   \<and> recorder (disconnect (disconnect
        (socket_opened 0 CaptureStarted (connect True (init (Some page_button)))))) = None
   \<and> sockets (disconnect (disconnect
        (socket_opened 0 CaptureStarted (connect True (init (Some page_button)))))) = [CLOSING]"
  using disconnect_repeated[of "init (Some page_button)"]
    disconnect_repeated[of
      "socket_opened 0 CaptureStarted (connect True (init (Some page_button)))"]
  by (simp add: handler_defs)

text \<open>
  C7 as stated fails. After connect and open, one \<open>disconnect\<close> reports one error and two
  calls in a row report two: the second call has a side effect that is not an idempotent
  update of a flag.
\<close>

theorem disconnect_twice_counterexample:
  "errors (disconnect
       (socket_opened 0 CaptureStarted (connect True (init (Some page_button)))))
     = [WebSocketDisconnected]
   \<and> errors (disconnect (disconnect
       (socket_opened 0 CaptureStarted (connect True (init (Some page_button))))))
     = [WebSocketDisconnected, WebSocketDisconnected]"
  by (simp add: handler_defs)

section \<open>Claims about the capture pipeline\<close>

text \<open>
  C6. A chunk of size zero is dropped: the callback returns the state unchanged, so nothing
  is sent. A chunk of any other size is encoded and passed to \<open>sendAudioInput\<close> of the socket
  the page holds.
\<close>

theorem recorder_chunk_forwarding:
  "(length chunk = 0 \<longrightarrow> ondataavailable enc chunk s = s)
   \<and> (length chunk \<noteq> 0 \<longrightarrow> socket s = Some k \<longrightarrow>
        ondataavailable enc chunk s = s\<lparr>sent := sent s @ [(k, enc chunk)]\<rparr>)"
  by (simp add: ondataavailable_def)

theorem recorder_chunk_forwarding_witness:
  "ondataavailable text_of [] (connect True (init None)) = connect True (init None)
   \<and> socket (connect True (init None)) = Some 0
   \<and> sent (ondataavailable text_of [72, 105] (connect True (init None)))
       = [(0, text_of [72, 105])]"
  using recorder_chunk_forwarding[of "[]" text_of "connect True (init None)" 0]
    recorder_chunk_forwarding[of "[72, 105]" text_of "connect True (init None)" 0]
  by (simp add: init_def updateToggleButtonState_def connect_def)

end
